theory Spec2Isabelle
  imports Main "HOL-Library.Word"
begin

section \<open>The micro-AMM contract (Mamm.algo.ts)\<close>

text \<open>
  The contract is a TEALScript class compiled to the Algorand virtual machine (AVM).
  Its global state is a fixed set of keys; every public method is one atomic
  application call: an \<open>assert\<close> that fails, an arithmetic opcode that fails or an
  inner transaction the ledger rejects aborts the whole call and no key is written.

  The model below embeds the version of the class that keeps the key
  \<open>lp_tokens_issued\<close> and the constant \<open>LP_TOKEN_SUPPLY\<close> (the one with
  \<open>updateContractEnding\<close>). Its method \<open>deleteApplication\<close>, the teardown of a pool
  whose reserves are empty, is not part of the model.
\<close>

subsection \<open>Values and errors\<close>

type_synonym uint64 = "64 word"
type_synonym address = nat

text \<open>
  The source aborts through \<open>assert(cond, message)\<close> and through failing opcodes.
  Each way of aborting is one constructor:
  \<^item> \<open>Unauthorized\<close>: the assertions \<open>'Only admin can ...'\<close>;
  \<^item> \<open>PreconditionFailed\<close>: \<open>verifyPayTxn\<close> / \<open>verifyAssetTransferTxn\<close> mismatch;
  \<^item> \<open>InvalidAmount\<close>: \<open>'Invalid LP amount'\<close>, \<open>'Invalid input amount'\<close>;
  \<^item> \<open>InvalidSwapType\<close>: \<open>'Invalid swap type'\<close>;
  \<^item> \<open>InsufficientSupply\<close>: \<open>'Not enough LP supply'\<close>;
  \<^item> \<open>SwapTooSmall\<close>: \<open>'Swap too small'\<close>;
  \<^item> \<open>ArithmeticOverflow\<close>, \<open>ArithmeticUnderflow\<close>, \<open>DivisionByZero\<close>: the AVM
    opcodes \<open>+\<close>, \<open>*\<close>, \<open>-\<close>, \<open>/\<close> and \<open>divmodw\<close> fail instead of wrapping;
  \<^item> \<open>LedgerRejected\<close>: an inner transaction was refused by the ledger.
\<close>

datatype error =
    Unauthorized
  | PreconditionFailed
  | InvalidAmount
  | InvalidSwapType
  | InsufficientSupply
  | SwapTooSmall
  | ArithmeticOverflow
  | ArithmeticUnderflow
  | DivisionByZero
  | LedgerRejected

definition bindE :: "error + 'a \<Rightarrow> ('a \<Rightarrow> error + 'b) \<Rightarrow> error + 'b" where
  "bindE m f = (case m of Inl e \<Rightarrow> Inl e | Inr v \<Rightarrow> f v)"

definition assert_that :: "bool \<Rightarrow> error \<Rightarrow> error + unit" where
  "assert_that c e = (if c then Inr () else Inl e)"

subsection \<open>AVM arithmetic on uint64\<close>

text \<open>The opcodes \<open>+\<close>, \<open>-\<close>, \<open>*\<close>, \<open>/\<close> on uint64: they fail on overflow,
  on a negative result and on a zero divisor.\<close>

definition add64 :: "uint64 \<Rightarrow> uint64 \<Rightarrow> error + uint64" where
  "add64 a b = (if unat a + unat b < 2 ^ 64 then Inr (a + b) else Inl ArithmeticOverflow)"

definition sub64 :: "uint64 \<Rightarrow> uint64 \<Rightarrow> error + uint64" where
  "sub64 a b = (if unat b \<le> unat a then Inr (a - b) else Inl ArithmeticUnderflow)"

definition mul64 :: "uint64 \<Rightarrow> uint64 \<Rightarrow> error + uint64" where
  "mul64 a b = (if unat a * unat b < 2 ^ 64 then Inr (a * b) else Inl ArithmeticOverflow)"

definition div64 :: "uint64 \<Rightarrow> uint64 \<Rightarrow> error + uint64" where
  "div64 a b = (if unat b = 0 then Inl DivisionByZero else Inr (a div b))"

text \<open>
  TEALScript's \<open>wideRatio(numeratorFactors, denominatorFactors)\<close>: the product of the
  numerator factors divided by the product of the denominator factors, computed with
  wide (128-bit) intermediate values (\<open>mulw\<close>, \<open>divmodw\<close>). It fails when the divisor is
  zero, when a product of factors leaves 128 bits, and when the quotient does not fit
  in a uint64.
\<close>

definition wideRatio :: "uint64 list \<Rightarrow> uint64 list \<Rightarrow> error + uint64" where
  "wideRatio numeratorFactors denominatorFactors =
     (let n = prod_list (map unat numeratorFactors);
          d = prod_list (map unat denominatorFactors)
      in if \<not> (n < 2 ^ 128 \<and> d < 2 ^ 128) then Inl ArithmeticOverflow
         else if d = 0 then Inl DivisionByZero
         else if n div d < 2 ^ 64 then Inr (of_nat (n div d))
         else Inl ArithmeticOverflow)"

text \<open>The opcode \<open>sqrt\<close>: the largest integer whose square is at most the argument.\<close>

fun sqrt_nat :: "nat \<Rightarrow> nat" where
  "sqrt_nat n =
     (if n < 2 then n
      else let r = 2 * sqrt_nat (n div 4)
           in if (r + 1) * (r + 1) \<le> n then r + 1 else r)"

declare sqrt_nat.simps [simp del]

definition sqrt_u64 :: "uint64 \<Rightarrow> uint64" where
  "sqrt_u64 a = of_nat (sqrt_nat (unat a))"

text \<open>The private helper \<open>min\<close> of the class.\<close>

definition min_u64 :: "uint64 \<Rightarrow> uint64 \<Rightarrow> uint64" where
  "min_u64 a b = (if unat a < unat b then a else b)"

subsection \<open>Constants\<close>

definition VERSION :: uint64 where "VERSION = 1000"
definition TOKEN_MBR :: uint64 where "TOKEN_MBR = 100000"
definition LP_TOKEN_SUPPLY :: uint64 where "LP_TOKEN_SUPPLY = 99999999999999"

subsection \<open>Global state\<close>

text \<open>One field per \<open>GlobalStateKey\<close>. A key that was never written reads as 0
  (the empty string for a string key), which is how \<open>empty_state\<close> below starts.\<close>

record state =
  primary_token_reserve :: uint64
  secondary_token_reserve :: uint64
  primary_token_id :: uint64
  secondary_token_id :: uint64
  total_lp_supply :: uint64
  lp_tokens_issued :: uint64
  k_value :: uint64
  lp_token_id :: uint64
  lp_token_name :: string
  lp_token_symbol :: string
  lp_token_decimals :: uint64
  lp_token_url :: string
  swap_fee_bps :: uint64
  protocol_fee_bps :: uint64
  admin :: address
  treasury_address :: address
  minimum_balance :: uint64
  contract_ending :: uint64
  contract_version :: uint64

definition empty_state :: state where
  "empty_state =
     \<lparr> primary_token_reserve = 0, secondary_token_reserve = 0,
       primary_token_id = 0, secondary_token_id = 0,
       total_lp_supply = 0, lp_tokens_issued = 0, k_value = 0,
       lp_token_id = 0, lp_token_name = [], lp_token_symbol = [],
       lp_token_decimals = 0, lp_token_url = [],
       swap_fee_bps = 0, protocol_fee_bps = 0,
       admin = 0, treasury_address = 0,
       minimum_balance = 0, contract_ending = 0, contract_version = 0 \<rparr>"

subsection \<open>The ledger boundary\<close>

text \<open>
  Transactions of the caller's group that a method receives as arguments, with the
  fields the contract verifies, and the inner transactions the contract submits
  (the \<open>fee\<close> field of an inner transaction is not modelled: whether the ledger
  accepts an inner transaction is a parameter of the call).
\<close>

record PayTxn =
  pay_receiver :: address
  pay_amount :: uint64

record AssetTransferTxn =
  axfer_sender :: address
  axfer_assetReceiver :: address
  axfer_xferAsset :: uint64
  axfer_assetAmount :: uint64

datatype itxn =
    AssetTransfer uint64 address uint64
  | Payment address uint64
  | AssetCreation uint64 uint64 string string string

text \<open>
  What a call sees of its environment: \<open>this.txn.sender\<close>, \<open>this.app.address\<close>, the
  asset id the ledger hands out if the call creates an asset, and which inner
  transactions the ledger accepts.
\<close>

record ctx =
  sender :: address
  app_address :: address
  created_asset :: uint64
  itxn_ok :: "itxn \<Rightarrow> bool"

definition verifyPayTxn :: "PayTxn \<Rightarrow> address \<Rightarrow> uint64 \<Rightarrow> error + unit" where
  "verifyPayTxn txn receiver amount =
     assert_that (pay_receiver txn = receiver \<and> pay_amount txn = amount) PreconditionFailed"

definition verifyAssetTransferTxn ::
  "AssetTransferTxn \<Rightarrow> address \<Rightarrow> address \<Rightarrow> uint64 \<Rightarrow> uint64 \<Rightarrow> error + unit" where
  "verifyAssetTransferTxn txn txnSender assetReceiver xferAsset assetAmount =
     assert_that (axfer_sender txn = txnSender \<and> axfer_assetReceiver txn = assetReceiver \<and>
                  axfer_xferAsset txn = xferAsset \<and> axfer_assetAmount txn = assetAmount)
       PreconditionFailed"

text \<open>The payout used by \<open>removeLiquidity\<close> and \<open>swap\<close>: a payment when the asset
  id is 0 (the native currency), an asset transfer otherwise.\<close>

definition send_asset :: "uint64 \<Rightarrow> address \<Rightarrow> uint64 \<Rightarrow> itxn" where
  "send_asset asset_id rcv amt =
     (if asset_id \<noteq> 0 then AssetTransfer asset_id rcv amt else Payment rcv amt)"

subsection \<open>Lifecycle\<close>

text \<open>\<open>createApplication\<close>: the creator becomes admin. The ledger runs it once, in the
  transaction that creates the application, when no key is written yet; it is not a
  call that can be made to an existing application.\<close>

definition createApplication :: "ctx \<Rightarrow> state \<Rightarrow> state" where
  "createApplication c s = s\<lparr>admin := sender c\<rparr>"

text \<open>
  \<open>initApplication\<close>: the admin check, the writes of the configuration keys, the
  verification of the funding payment (\<open>TOKEN_MBR * 4 + 3_000\<close>), the two opt-in
  transfers of amount 0 and the creation of the LP asset, whose id and total are stored.
  The method reads no key that records an earlier initialisation.
\<close>

definition initApplication ::
  "ctx \<Rightarrow> state \<Rightarrow> PayTxn \<Rightarrow> uint64 \<Rightarrow> uint64 \<Rightarrow> string \<Rightarrow> string \<Rightarrow>
   uint64 \<Rightarrow> uint64 \<Rightarrow> address \<Rightarrow> error + (state \<times> itxn list)" where
  "initApplication c s mbrTxn primaryAssetId secondaryAssetId lpAssetName lpAssetURL
                   swapFeeBps protocolFeeBps treasuryAddress =
     bindE (assert_that (admin s = sender c) Unauthorized) (\<lambda>_.
       let s1 = s\<lparr> primary_token_reserve := 0,
                   secondary_token_reserve := 0,
                   total_lp_supply := 0,
                   k_value := 0,
                   lp_token_id := 0,
                   lp_token_name := lpAssetName,
                   lp_token_symbol := ''MLP'',
                   lp_token_decimals := 6,
                   lp_token_url := lpAssetURL,
                   contract_version := VERSION,
                   minimum_balance := TOKEN_MBR * 4,
                   swap_fee_bps := swapFeeBps,
                   protocol_fee_bps := protocolFeeBps,
                   treasury_address := treasuryAddress \<rparr>
       in bindE (verifyPayTxn mbrTxn (app_address c) (TOKEN_MBR * 4 + 3000)) (\<lambda>_.
            let s2 = s1\<lparr> primary_token_id := primaryAssetId,
                          secondary_token_id := secondaryAssetId \<rparr>;
                lpAssetId = created_asset c
            in Inr (s2\<lparr> lp_token_id := lpAssetId, total_lp_supply := LP_TOKEN_SUPPLY \<rparr>,
                    [ AssetTransfer (primary_token_id s2) (app_address c) 0,
                      AssetTransfer (secondary_token_id s2) (app_address c) 0,
                      AssetCreation LP_TOKEN_SUPPLY (lp_token_decimals s2) (lp_token_name s2)
                        (lp_token_symbol s2) (lp_token_url s2) ])))"

subsection \<open>Liquidity\<close>

text \<open>
  The number of LP tokens \<open>addLiquidity\<close> mints: the square root of the product of
  the amounts when \<open>lp_tokens_issued\<close> is 0, otherwise the smaller of the two ratios,
  both taken against \<open>totalLPSupply\<close>, the value of the key \<open>total_lp_supply\<close>.
  The second ratio multiplies with the plain \<open>*\<close> before \<open>wideRatio\<close> is called.
  In \<open>addLiquidity\<close> the value written to \<open>k_value\<close> is the product of the two new
  reserves, whose sums the source writes out a second time.
\<close>

definition lpTokensMinted ::
  "uint64 \<Rightarrow> uint64 \<Rightarrow> uint64 \<Rightarrow> uint64 \<Rightarrow> uint64 \<Rightarrow> uint64 \<Rightarrow> error + uint64" where
  "lpTokensMinted primaryAmount secondaryAmount primaryReserve secondaryReserve
                  totalLPSupply lpTokensIssued =
     (if lpTokensIssued = 0
      then bindE (mul64 primaryAmount secondaryAmount) (\<lambda>p. Inr (sqrt_u64 p))
      else bindE (wideRatio [primaryAmount, totalLPSupply] [primaryReserve]) (\<lambda>mintFromPrimary.
           bindE (mul64 secondaryAmount totalLPSupply) (\<lambda>n.
           bindE (wideRatio [n] [secondaryReserve]) (\<lambda>mintFromSecondary.
             Inr (min_u64 mintFromPrimary mintFromSecondary)))))"

definition addLiquidity ::
  "ctx \<Rightarrow> state \<Rightarrow> uint64 \<Rightarrow> uint64 \<Rightarrow> AssetTransferTxn \<Rightarrow> AssetTransferTxn \<Rightarrow>
   error + (state \<times> itxn list)" where
  "addLiquidity c s primaryAmount secondaryAmount primaryAssetTransfer secondaryAssetTransfer =
     (let primaryReserve = primary_token_reserve s;
          secondaryReserve = secondary_token_reserve s;
          totalLPSupply = total_lp_supply s;
          lpTokensIssued = lp_tokens_issued s
      in bindE (verifyAssetTransferTxn primaryAssetTransfer (sender c) (app_address c)
                  (primary_token_id s) primaryAmount) (\<lambda>_.
         bindE (verifyAssetTransferTxn secondaryAssetTransfer (sender c) (app_address c)
                  (secondary_token_id s) secondaryAmount) (\<lambda>_.
         bindE (lpTokensMinted primaryAmount secondaryAmount primaryReserve secondaryReserve
                  totalLPSupply lpTokensIssued) (\<lambda>minted.
         bindE (add64 primaryReserve primaryAmount) (\<lambda>newPrimary.
         bindE (add64 secondaryReserve secondaryAmount) (\<lambda>newSecondary.
         bindE (sub64 totalLPSupply minted) (\<lambda>newSupply.
         bindE (mul64 newPrimary newSecondary) (\<lambda>k.
         bindE (add64 lpTokensIssued minted) (\<lambda>newIssued.
           Inr (s\<lparr> primary_token_reserve := newPrimary,
                    secondary_token_reserve := newSecondary,
                    total_lp_supply := newSupply,
                    k_value := k,
                    lp_tokens_issued := newIssued \<rparr>,
                [ AssetTransfer (lp_token_id s) (sender c) minted ]))))))))))"

text \<open>
  \<open>removeLiquidity\<close>. Both guards and both ratios use \<open>totalLPSupply\<close>, the value of
  the key \<open>total_lp_supply\<close>. The key is written twice: \<open>totalLPSupply - lpTokensBurned\<close>
  first, and that value plus \<open>lpTokensBurned\<close> under the comment \<open>Burn LP tokens\<close>.
  \<open>withdrawn\<close> is the ratio the source computes for \<open>primaryWithdrawn\<close> and for
  \<open>secondaryWithdrawn\<close>.
\<close>

definition withdrawn :: "uint64 \<Rightarrow> uint64 \<Rightarrow> uint64 \<Rightarrow> error + uint64" where
  "withdrawn lpTokensBurned reserve totalLPSupply =
     wideRatio [lpTokensBurned, reserve] [totalLPSupply]"

definition removeLiquidity ::
  "ctx \<Rightarrow> state \<Rightarrow> AssetTransferTxn \<Rightarrow> uint64 \<Rightarrow> error + (state \<times> itxn list)" where
  "removeLiquidity c s burnTxn lpTokensBurned =
     (let primaryReserve = primary_token_reserve s;
          secondaryReserve = secondary_token_reserve s;
          totalLPSupply = total_lp_supply s
      in bindE (assert_that (0 < unat lpTokensBurned) InvalidAmount) (\<lambda>_.
         bindE (assert_that (unat lpTokensBurned \<le> unat totalLPSupply) InsufficientSupply) (\<lambda>_.
         bindE (verifyAssetTransferTxn burnTxn (sender c) (app_address c)
                  (lp_token_id s) lpTokensBurned) (\<lambda>_.
         bindE (withdrawn lpTokensBurned primaryReserve totalLPSupply) (\<lambda>primaryWithdrawn.
         bindE (withdrawn lpTokensBurned secondaryReserve totalLPSupply) (\<lambda>secondaryWithdrawn.
         bindE (sub64 primaryReserve primaryWithdrawn) (\<lambda>newPrimary.
         bindE (sub64 secondaryReserve secondaryWithdrawn) (\<lambda>newSecondary.
         bindE (sub64 totalLPSupply lpTokensBurned) (\<lambda>supply1.
         bindE (mul64 newPrimary newSecondary) (\<lambda>k.
         bindE (add64 supply1 lpTokensBurned) (\<lambda>supply2.
         bindE (sub64 (lp_tokens_issued s) lpTokensBurned) (\<lambda>newIssued.
           Inr (s\<lparr> primary_token_reserve := newPrimary,
                    secondary_token_reserve := newSecondary,
                    total_lp_supply := supply2,
                    k_value := k,
                    lp_tokens_issued := newIssued \<rparr>,
                [ send_asset (primary_token_id s) (sender c) primaryWithdrawn,
                  send_asset (secondary_token_id s) (sender c) secondaryWithdrawn ])))))))))))))"

subsection \<open>Swap\<close>

text \<open>
  The arithmetic of \<open>swap\<close>, in the order of the source. \<open>swap_fees\<close> is the fee
  split (\<open>totalFee\<close>, \<open>protocolFee\<close>, \<open>lpFee\<close>, \<open>inputAfterFee\<close>); the second
  \<open>wideRatio\<close> divides by \<open>swapFeeBps\<close> with no test of it. \<open>swap_amounts\<close> adds the
  constant-product quote and the new reserves.
\<close>

record fees =
  totalFee :: uint64
  protocolFee :: uint64
  lpFee :: uint64
  inputAfterFee :: uint64

record amounts = fees +
  outputAmount :: uint64
  newReserveIn :: uint64
  newReserveOut :: uint64

definition swap_fees :: "uint64 \<Rightarrow> uint64 \<Rightarrow> uint64 \<Rightarrow> error + fees" where
  "swap_fees inputAmount swapFeeBps protocolFeeBps =
     bindE (wideRatio [inputAmount, swapFeeBps] [10000]) (\<lambda>tf.
     bindE (wideRatio [tf, protocolFeeBps] [swapFeeBps]) (\<lambda>pf.
     bindE (sub64 tf pf) (\<lambda>lf.
     bindE (sub64 inputAmount tf) (\<lambda>iaf.
       Inr \<lparr> totalFee = tf, protocolFee = pf, lpFee = lf, inputAfterFee = iaf \<rparr>))))"

definition swap_amounts ::
  "uint64 \<Rightarrow> uint64 \<Rightarrow> uint64 \<Rightarrow> uint64 \<Rightarrow> uint64 \<Rightarrow> error + amounts" where
  "swap_amounts reserveIn reserveOut swapFeeBps protocolFeeBps inputAmount =
     bindE (assert_that (0 < unat inputAmount) InvalidAmount) (\<lambda>_.
     bindE (swap_fees inputAmount swapFeeBps protocolFeeBps) (\<lambda>f.
     bindE (mul64 reserveOut (inputAfterFee f)) (\<lambda>numerator.
     bindE (add64 reserveIn (inputAfterFee f)) (\<lambda>denominator.
     bindE (div64 numerator denominator) (\<lambda>out.
     bindE (assert_that (0 < unat out) SwapTooSmall) (\<lambda>_.
     bindE (add64 reserveIn (inputAfterFee f)) (\<lambda>r.
     bindE (add64 r (lpFee f)) (\<lambda>newIn.
     bindE (sub64 reserveOut out) (\<lambda>newOut.
       Inr \<lparr> totalFee = totalFee f, protocolFee = protocolFee f, lpFee = lpFee f,
             inputAfterFee = inputAfterFee f,
             outputAmount = out, newReserveIn = newIn, newReserveOut = newOut \<rparr>)))))))))"

text \<open>\<open>swap\<close>: \<open>swapType\<close> 0 is primary to secondary, 1 is secondary to primary, any other
  value fails before the amount is looked at.\<close>

definition swap :: "ctx \<Rightarrow> state \<Rightarrow> uint64 \<Rightarrow> uint64 \<Rightarrow> error + (state \<times> itxn list)" where
  "swap c s inputAmount swapType =
     (let primaryReserve = primary_token_reserve s;
          secondaryReserve = secondary_token_reserve s;
          swapFeeBps = swap_fee_bps s;
          protocolFeeBps = protocol_fee_bps s;
          protocolReceiver = treasury_address s
      in bindE (if swapType = 0 then Inr (primaryReserve, secondaryReserve)
                else if swapType = 1 then Inr (secondaryReserve, primaryReserve)
                else Inl InvalidSwapType) (\<lambda>(reserveIn, reserveOut).
         bindE (swap_amounts reserveIn reserveOut swapFeeBps protocolFeeBps inputAmount) (\<lambda>a.
         bindE (mul64 (newReserveIn a) (newReserveOut a)) (\<lambda>k.
           let s1 = (if swapType = 0
                     then s\<lparr> primary_token_reserve := newReserveIn a,
                              secondary_token_reserve := newReserveOut a \<rparr>
                     else s\<lparr> secondary_token_reserve := newReserveIn a,
                              primary_token_reserve := newReserveOut a \<rparr>);
               inId = (if swapType = 0 then primary_token_id s else secondary_token_id s);
               outId = (if swapType = 0 then secondary_token_id s else primary_token_id s)
           in Inr (s1\<lparr> k_value := k \<rparr>,
                   (if 0 < unat (protocolFee a)
                    then [ send_asset inId protocolReceiver (protocolFee a) ] else []) @
                   [ send_asset outId (sender c) (outputAmount a) ])))))"

subsection \<open>Admin functions\<close>

definition updateSwapFee :: "ctx \<Rightarrow> state \<Rightarrow> uint64 \<Rightarrow> error + (state \<times> itxn list)" where
  "updateSwapFee c s newFee =
     bindE (assert_that (admin s = sender c) Unauthorized) (\<lambda>_.
       Inr (s\<lparr> swap_fee_bps := newFee \<rparr>, []))"

definition updateProtocolFee :: "ctx \<Rightarrow> state \<Rightarrow> uint64 \<Rightarrow> error + (state \<times> itxn list)" where
  "updateProtocolFee c s newFee =
     bindE (assert_that (admin s = sender c) Unauthorized) (\<lambda>_.
       Inr (s\<lparr> protocol_fee_bps := newFee \<rparr>, []))"

definition updateAdmin :: "ctx \<Rightarrow> state \<Rightarrow> address \<Rightarrow> error + (state \<times> itxn list)" where
  "updateAdmin c s newAdmin =
     bindE (assert_that (admin s = sender c) Unauthorized) (\<lambda>_.
       Inr (s\<lparr> admin := newAdmin \<rparr>, []))"

definition updateTreasury :: "ctx \<Rightarrow> state \<Rightarrow> address \<Rightarrow> error + (state \<times> itxn list)" where
  "updateTreasury c s newTreasury =
     bindE (assert_that (admin s = sender c) Unauthorized) (\<lambda>_.
       Inr (s\<lparr> treasury_address := newTreasury \<rparr>, []))"

definition updateMinimumBalance :: "ctx \<Rightarrow> state \<Rightarrow> uint64 \<Rightarrow> error + (state \<times> itxn list)" where
  "updateMinimumBalance c s newMBR =
     bindE (assert_that (admin s = sender c) Unauthorized) (\<lambda>_.
       Inr (s\<lparr> minimum_balance := newMBR \<rparr>, []))"

definition updateContractEnding :: "ctx \<Rightarrow> state \<Rightarrow> uint64 \<Rightarrow> error + (state \<times> itxn list)" where
  "updateContractEnding c s newEnding =
     bindE (assert_that (admin s = sender c) Unauthorized) (\<lambda>_.
       Inr (s\<lparr> contract_ending := newEnding \<rparr>, []))"

subsection \<open>Application calls\<close>

text \<open>
  One call to the created application: the method and its arguments. \<open>exec\<close> runs it as the ledger
  does: the new state is kept when the method returns and every inner transaction is
  accepted; otherwise the call fails and the state is the one before the call.
\<close>

datatype call =
    InitApplication PayTxn uint64 uint64 string string uint64 uint64 address
  | AddLiquidity uint64 uint64 AssetTransferTxn AssetTransferTxn
  | RemoveLiquidity AssetTransferTxn uint64
  | Swap uint64 uint64
  | UpdateSwapFee uint64
  | UpdateProtocolFee uint64
  | UpdateAdmin address
  | UpdateTreasury address
  | UpdateMinimumBalance uint64
  | UpdateContractEnding uint64

fun dispatch :: "ctx \<Rightarrow> state \<Rightarrow> call \<Rightarrow> error + (state \<times> itxn list)" where
  "dispatch c s (InitApplication mbrTxn p q n u sf pf t) = initApplication c s mbrTxn p q n u sf pf t"
| "dispatch c s (AddLiquidity pa sa pt st) = addLiquidity c s pa sa pt st"
| "dispatch c s (RemoveLiquidity bt n) = removeLiquidity c s bt n"
| "dispatch c s (Swap n ty) = swap c s n ty"
| "dispatch c s (UpdateSwapFee v) = updateSwapFee c s v"
| "dispatch c s (UpdateProtocolFee v) = updateProtocolFee c s v"
| "dispatch c s (UpdateAdmin v) = updateAdmin c s v"
| "dispatch c s (UpdateTreasury v) = updateTreasury c s v"
| "dispatch c s (UpdateMinimumBalance v) = updateMinimumBalance c s v"
| "dispatch c s (UpdateContractEnding v) = updateContractEnding c s v"

definition exec :: "ctx \<Rightarrow> state \<Rightarrow> call \<Rightarrow> state \<times> error option" where
  "exec c s cl =
     (case dispatch c s cl of
        Inl e \<Rightarrow> (s, Some e)
      | Inr (s', itxns) \<Rightarrow>
          if list_all (itxn_ok c) itxns then (s', None) else (s, Some LedgerRejected))"

text \<open>A run: calls with their environments, applied in order from a state; the result
  is the final state and the outcome of every call.\<close>

fun run :: "state \<Rightarrow> (ctx \<times> call) list \<Rightarrow> state \<times> error option list" where
  "run s [] = (s, [])"
| "run s ((c, cl) # rest) =
     (case exec c s cl of (s', r) \<Rightarrow> (case run s' rest of (s'', rs) \<Rightarrow> (s'', r # rs)))"

subsection \<open>Reading the reserves by direction\<close>

text \<open>The reserve on the input side and on the output side of a swap of type
  \<open>swapType\<close>, as \<open>swap\<close> selects them for the types 0 and 1.\<close>

definition reserve_in :: "state \<Rightarrow> uint64 \<Rightarrow> uint64" where
  "reserve_in s swapType =
     (if swapType = 0 then primary_token_reserve s else secondary_token_reserve s)"

definition reserve_out :: "state \<Rightarrow> uint64 \<Rightarrow> uint64" where
  "reserve_out s swapType =
     (if swapType = 0 then secondary_token_reserve s else primary_token_reserve s)"

text \<open>The number of \<open>initApplication\<close> calls of a run that succeed.\<close>

fun is_init :: "call \<Rightarrow> bool" where
  "is_init (InitApplication mbrTxn p q n u sf pf t) = True"
| "is_init cl = False"

definition successful_inits :: "state \<Rightarrow> (ctx \<times> call) list \<Rightarrow> nat" where
  "successful_inits s tr =
     length (filter (\<lambda>(cl, r). is_init cl \<and> r = None) (zip (map snd tr) (snd (run s tr))))"

subsection \<open>A concrete pool\<close>

text \<open>
  The pool of the repository's tests: the admin (address 1) creates and initialises the
  application (address 100) for the assets 1001 and 1002 with a swap fee of 30 bps, a
  protocol fee of 5 bps and the treasury at address 3; the ledger hands out 1003 as the
  id of the LP asset. A user (address 2) then deposits 100000 of each asset.
\<close>

definition admin_ctx :: ctx where
  "admin_ctx = \<lparr> sender = 1, app_address = 100, created_asset = 1003, itxn_ok = (\<lambda>_. True) \<rparr>"

definition user_ctx :: ctx where
  "user_ctx = \<lparr> sender = 2, app_address = 100, created_asset = 0, itxn_ok = (\<lambda>_. True) \<rparr>"

definition init_call :: call where
  "init_call = InitApplication \<lparr> pay_receiver = 100, pay_amount = 403000 \<rparr> 1001 1002
     ''LP-Asset'' ''https://lp-asset-url.com'' 30 5 3"

definition user_transfer :: "uint64 \<Rightarrow> uint64 \<Rightarrow> AssetTransferTxn" where
  "user_transfer asset amt =
     \<lparr> axfer_sender = 2, axfer_assetReceiver = 100, axfer_xferAsset = asset,
       axfer_assetAmount = amt \<rparr>"

definition first_deposit :: call where
  "first_deposit =
     AddLiquidity 100000 100000 (user_transfer 1001 100000) (user_transfer 1002 100000)"

definition active_pool :: state where
  "active_pool =
     \<lparr> primary_token_reserve = 0, secondary_token_reserve = 0,
       primary_token_id = 1001, secondary_token_id = 1002,
       total_lp_supply = 99999999999999, lp_tokens_issued = 0, k_value = 0,
       lp_token_id = 1003, lp_token_name = ''LP-Asset'', lp_token_symbol = ''MLP'',
       lp_token_decimals = 6, lp_token_url = ''https://lp-asset-url.com'',
       swap_fee_bps = 30, protocol_fee_bps = 5,
       admin = 1, treasury_address = 3,
       minimum_balance = 400000, contract_ending = 0, contract_version = 1000 \<rparr>"

definition funded_pool :: state where
  "funded_pool =
     active_pool \<lparr> primary_token_reserve := 100000, secondary_token_reserve := 100000,
       total_lp_supply := 99999999899999, lp_tokens_issued := 100000,
       k_value := 10000000000 \<rparr>"

text \<open>A later call of the admin, for which the ledger would hand out the asset id
  1004.\<close>

definition second_ctx :: ctx where
  "second_ctx = \<lparr> sender = 1, app_address = 100, created_asset = 1004, itxn_ok = (\<lambda>_. True) \<rparr>"

section \<open>Auxiliary facts\<close>

subsection \<open>The error monad and the checked arithmetic\<close>

lemma bindE_Inr: "bindE m f = Inr y \<longleftrightarrow> (\<exists>v. m = Inr v \<and> f v = Inr y)"
  by (cases m) (simp_all add: bindE_def)

lemma assert_that_Inr: "assert_that b e = Inr u \<longleftrightarrow> b"
  by (simp add: assert_that_def)

lemma add64_Inr: "add64 a b = Inr r \<Longrightarrow> unat r = unat a + unat b"
  by (auto simp add: add64_def unat_add_lem [THEN iffD1] split: if_splits)

lemma sub64_Inr: "sub64 a b = Inr r \<Longrightarrow> unat b \<le> unat a \<and> unat r = unat a - unat b"
  by (auto simp add: sub64_def unat_sub word_le_nat_alt split: if_splits)

lemma mul64_Inr: "mul64 a b = Inr r \<Longrightarrow> unat r = unat a * unat b"
  by (auto simp add: mul64_def unat_mult_lem [THEN iffD1] split: if_splits)

lemma div64_Inr: "div64 a b = Inr r \<Longrightarrow> unat b \<noteq> 0 \<and> unat r = unat a div unat b"
  by (auto simp add: div64_def unat_div split: if_splits)

lemma bindE_Inl: "bindE m f = Inl e \<longleftrightarrow> m = Inl e \<or> (\<exists>v. m = Inr v \<and> f v = Inl e)"
  by (cases m) (simp_all add: bindE_def)

lemma assert_that_Inl: "assert_that b e = Inl e' \<longleftrightarrow> \<not> b \<and> e' = e"
  by (auto simp add: assert_that_def)

lemma add64_Inl: "add64 a b = Inl e \<Longrightarrow> e = ArithmeticOverflow"
  by (simp add: add64_def split: if_splits)

lemma mul64_Inl: "mul64 a b = Inl e \<Longrightarrow> e = ArithmeticOverflow"
  by (simp add: mul64_def split: if_splits)

lemma div64_Inl: "div64 a b = Inl e \<Longrightarrow> e = DivisionByZero"
  by (simp add: div64_def split: if_splits)

lemma unat_of_nat64: "n < 2 ^ 64 \<Longrightarrow> unat (of_nat n :: uint64) = n"
  by (simp add: unat_of_nat)

lemma unat_mult_less_128: "unat (a :: uint64) * unat (b :: uint64) < 2 ^ 128"
proof -
  have "unat a < 2 ^ 64" "unat b < 2 ^ 64"
    using unsigned_less [of a] unsigned_less [of b] by simp_all
  then have "unat a * unat b < 2 ^ 64 * 2 ^ 64"
    by (rule mult_strict_mono') simp_all
  then show ?thesis by simp
qed

lemma unat_less_128: "unat (a :: uint64) < 2 ^ 128"
proof -
  have "unat a < 2 ^ 64" using unsigned_less [of a] by simp
  also have "(2::nat) ^ 64 < 2 ^ 128" by simp
  finally show ?thesis .
qed

text \<open>With two numerator factors and one denominator factor the 128-bit bound always
  holds, and \<open>wideRatio\<close> is the floor of the exact quotient or an error.\<close>

lemma wideRatio2_eq:
  "wideRatio [a, b] [d] =
     (if unat d = 0 then Inl DivisionByZero
      else if unat a * unat b div unat d < 2 ^ 64
           then Inr (of_nat (unat a * unat b div unat d))
      else Inl ArithmeticOverflow)"
  using unat_mult_less_128 [of a b] unat_less_128 [of d]
  by (simp add: wideRatio_def Let_def)

lemma wideRatio2_Inr:
  "wideRatio [a, b] [d] = Inr q \<Longrightarrow> unat d \<noteq> 0 \<and> unat q = unat a * unat b div unat d"
  by (auto simp add: wideRatio2_eq unat_of_nat64 split: if_splits)

lemma wideRatio1_Inr:
  "wideRatio [a] [d] = Inr q \<Longrightarrow> unat d \<noteq> 0 \<and> unat q = unat a div unat d"
  by (auto simp add: wideRatio_def Let_def unat_of_nat64 split: if_splits)

lemma div_mult_le_self: "(a :: nat) * b div c \<le> a" if "b \<le> c"
proof (cases "c = 0")
  case True
  then show ?thesis by simp
next
  case False
  have "a * b \<le> a * c" using that by simp
  then have "a * b div c \<le> a * c div c" by (rule div_le_mono)
  with False show ?thesis by simp
qed

subsection \<open>The square root\<close>

text \<open>\<open>sqrt_nat\<close> is the floor of the square root.\<close>

lemma sqrt_nat_floor: "sqrt_nat n * sqrt_nat n \<le> n \<and> n < (sqrt_nat n + 1) * (sqrt_nat n + 1)"
proof (induction n rule: sqrt_nat.induct)
  case (1 n)
  show ?case
  proof (cases "n < 2")
    case True
    then have small: "sqrt_nat n = n" by (subst sqrt_nat.simps) simp
    from True have "n = 0 \<or> n = 1" by auto
    then show ?thesis unfolding small by auto
  next
    case False
    define q where "q = sqrt_nat (n div 4)"
    from 1 False have ih: "q * q \<le> n div 4" "n div 4 < (q + 1) * (q + 1)"
      by (simp_all add: q_def)
    have lo: "(2 * q) * (2 * q) \<le> n"
    proof -
      have "(2 * q) * (2 * q) = 4 * (q * q)" by simp
      also have "\<dots> \<le> 4 * (n div 4)" using ih(1) by simp
      also have "\<dots> \<le> n" by simp
      finally show ?thesis .
    qed
    have hi: "n < (2 * q + 2) * (2 * q + 2)"
    proof -
      have "n < 4 * (n div 4) + 4" by arith
      also have "\<dots> \<le> 4 * ((q + 1) * (q + 1))" using ih(2) by simp
      also have "\<dots> = (2 * q + 2) * (2 * q + 2)" by (simp add: algebra_simps)
      finally show ?thesis .
    qed
    have eq: "sqrt_nat n = (if (2 * q + 1) * (2 * q + 1) \<le> n then 2 * q + 1 else 2 * q)"
      using False by (subst sqrt_nat.simps) (simp add: q_def Let_def)
    show ?thesis
    proof (cases "(2 * q + 1) * (2 * q + 1) \<le> n")
      case True
      with eq hi show ?thesis by (simp add: algebra_simps)
    next
      case no: False
      with eq lo show ?thesis by (simp add: algebra_simps)
    qed
  qed
qed

subsection \<open>What the liquidity methods computed and wrote\<close>

text \<open>The first deposit mints the floor of the square root of the product of the
  amounts; a later one the smaller of the two ratios against \<open>totalLPSupply\<close>.\<close>

lemma lpTokensMinted_first:
  assumes "lpTokensMinted primaryAmount secondaryAmount primaryReserve secondaryReserve
             totalLPSupply 0 = Inr minted"
  shows "unat minted * unat minted \<le> unat primaryAmount * unat secondaryAmount"
    and "unat primaryAmount * unat secondaryAmount < (unat minted + 1) * (unat minted + 1)"
proof -
  from assms obtain p where p: "mul64 primaryAmount secondaryAmount = Inr p"
    and m: "minted = sqrt_u64 p"
    by (auto simp add: lpTokensMinted_def bindE_Inr)
  have up: "unat p = unat primaryAmount * unat secondaryAmount" by (rule mul64_Inr [OF p])
  have "sqrt_nat (unat p) * sqrt_nat (unat p) \<le> unat p" using sqrt_nat_floor by blast
  moreover have "sqrt_nat (unat p) \<le> sqrt_nat (unat p) * sqrt_nat (unat p)" by (cases "sqrt_nat (unat p)") simp_all
  moreover have "unat p < 2 ^ 64" using unsigned_less [of p] by simp
  ultimately have "sqrt_nat (unat p) < 2 ^ 64" by linarith
  then have um: "unat minted = sqrt_nat (unat p)"
    by (simp add: m sqrt_u64_def unat_of_nat64)
  from sqrt_nat_floor [of "unat p"] um up
  show "unat minted * unat minted \<le> unat primaryAmount * unat secondaryAmount"
    and "unat primaryAmount * unat secondaryAmount < (unat minted + 1) * (unat minted + 1)"
    by simp_all
qed

lemma lpTokensMinted_later:
  assumes "lpTokensIssued \<noteq> 0"
      and "lpTokensMinted primaryAmount secondaryAmount primaryReserve secondaryReserve
             totalLPSupply lpTokensIssued = Inr minted"
  shows "unat minted =
           min (unat primaryAmount * unat totalLPSupply div unat primaryReserve)
               (unat secondaryAmount * unat totalLPSupply div unat secondaryReserve)"
proof -
  from assms obtain mp n ms where
    mp: "wideRatio [primaryAmount, totalLPSupply] [primaryReserve] = Inr mp" and
    n: "mul64 secondaryAmount totalLPSupply = Inr n" and
    ms: "wideRatio [n] [secondaryReserve] = Inr ms" and
    m: "minted = min_u64 mp ms"
    by (auto simp add: lpTokensMinted_def bindE_Inr)
  from wideRatio2_Inr [OF mp] mul64_Inr [OF n] wideRatio1_Inr [OF ms] m
  show ?thesis by (simp add: min_u64_def min_def)
qed

text \<open>A successful \<open>addLiquidity\<close> moves the minted units from \<open>total_lp_supply\<close> to
  \<open>lp_tokens_issued\<close>; a successful \<open>removeLiquidity\<close> takes the burned units from
  \<open>lp_tokens_issued\<close> and leaves \<open>total_lp_supply\<close> as it was.\<close>

lemma addLiquidity_Inr:
  assumes "addLiquidity c s primaryAmount secondaryAmount pt st = Inr (s', tx)"
  shows "\<exists>minted.
           lpTokensMinted primaryAmount secondaryAmount (primary_token_reserve s)
             (secondary_token_reserve s) (total_lp_supply s) (lp_tokens_issued s) = Inr minted \<and>
           tx = [AssetTransfer (lp_token_id s) (sender c) minted] \<and>
           unat (primary_token_reserve s') = unat (primary_token_reserve s) + unat primaryAmount \<and>
           unat (secondary_token_reserve s') =
             unat (secondary_token_reserve s) + unat secondaryAmount \<and>
           unat minted \<le> unat (total_lp_supply s) \<and>
           unat (total_lp_supply s') = unat (total_lp_supply s) - unat minted \<and>
           unat (lp_tokens_issued s') = unat (lp_tokens_issued s) + unat minted"
proof -
  from assms obtain minted newPrimary newSecondary newSupply k newIssued where
    m: "lpTokensMinted primaryAmount secondaryAmount (primary_token_reserve s)
          (secondary_token_reserve s) (total_lp_supply s) (lp_tokens_issued s) = Inr minted" and
    p: "add64 (primary_token_reserve s) primaryAmount = Inr newPrimary" and
    q: "add64 (secondary_token_reserve s) secondaryAmount = Inr newSecondary" and
    u: "sub64 (total_lp_supply s) minted = Inr newSupply" and
    i: "add64 (lp_tokens_issued s) minted = Inr newIssued" and
    s': "s' = s\<lparr> primary_token_reserve := newPrimary,
                    secondary_token_reserve := newSecondary,
                    total_lp_supply := newSupply,
                    k_value := k,
                    lp_tokens_issued := newIssued \<rparr>" and
    tx: "tx = [AssetTransfer (lp_token_id s) (sender c) minted]"
    by (auto simp add: addLiquidity_def Let_def bindE_Inr)
  from add64_Inr [OF p] add64_Inr [OF q] sub64_Inr [OF u] add64_Inr [OF i] m s' tx
  show ?thesis by simp
qed

lemma removeLiquidity_Inr:
  assumes "removeLiquidity c s burnTxn lpTokensBurned = Inr (s', tx)"
  shows "\<exists>pw sw.
           withdrawn lpTokensBurned (primary_token_reserve s) (total_lp_supply s) = Inr pw \<and>
           withdrawn lpTokensBurned (secondary_token_reserve s) (total_lp_supply s) = Inr sw \<and>
           tx = [send_asset (primary_token_id s) (sender c) pw,
                 send_asset (secondary_token_id s) (sender c) sw] \<and>
           unat (primary_token_reserve s') = unat (primary_token_reserve s) - unat pw \<and>
           unat (secondary_token_reserve s') = unat (secondary_token_reserve s) - unat sw \<and>
           total_lp_supply s' = total_lp_supply s \<and>
           unat lpTokensBurned \<le> unat (lp_tokens_issued s) \<and>
           unat (lp_tokens_issued s') = unat (lp_tokens_issued s) - unat lpTokensBurned"
proof -
  from assms obtain pw sw newPrimary newSecondary supply1 k supply2 newIssued where
    pw: "withdrawn lpTokensBurned (primary_token_reserve s) (total_lp_supply s) = Inr pw" and
    sw: "withdrawn lpTokensBurned (secondary_token_reserve s) (total_lp_supply s) = Inr sw" and
    p: "sub64 (primary_token_reserve s) pw = Inr newPrimary" and
    q: "sub64 (secondary_token_reserve s) sw = Inr newSecondary" and
    u1: "sub64 (total_lp_supply s) lpTokensBurned = Inr supply1" and
    u2: "add64 supply1 lpTokensBurned = Inr supply2" and
    i: "sub64 (lp_tokens_issued s) lpTokensBurned = Inr newIssued" and
    s': "s' = s\<lparr> primary_token_reserve := newPrimary,
                    secondary_token_reserve := newSecondary,
                    total_lp_supply := supply2,
                    k_value := k,
                    lp_tokens_issued := newIssued \<rparr>" and
    tx: "tx = [send_asset (primary_token_id s) (sender c) pw,
               send_asset (secondary_token_id s) (sender c) sw]"
    by (auto simp add: removeLiquidity_def Let_def bindE_Inr)
  have "supply1 = total_lp_supply s - lpTokensBurned"
    using u1 by (simp add: sub64_def split: if_splits)
  moreover have "supply2 = supply1 + lpTokensBurned"
    using u2 by (simp add: add64_def split: if_splits)
  ultimately have same: "supply2 = total_lp_supply s" by simp
  from sub64_Inr [OF p] sub64_Inr [OF q] sub64_Inr [OF i] pw sw s' tx same
  show ?thesis by simp
qed

subsection \<open>What a successful swap computed\<close>

lemma swap_fees_Inr:
  assumes "swap_fees inputAmount sfb pfb = Inr f"
  shows "unat sfb \<noteq> 0"
    and "unat (totalFee f) = unat inputAmount * unat sfb div 10000"
    and "unat (protocolFee f) = unat (totalFee f) * unat pfb div unat sfb"
    and "unat (protocolFee f) \<le> unat (totalFee f)"
    and "unat (lpFee f) = unat (totalFee f) - unat (protocolFee f)"
    and "unat (totalFee f) \<le> unat inputAmount"
    and "unat (inputAfterFee f) = unat inputAmount - unat (totalFee f)"
proof -
  from assms obtain tf pf lf iaf where
    tf: "wideRatio [inputAmount, sfb] [10000] = Inr tf" and
    pf: "wideRatio [tf, pfb] [sfb] = Inr pf" and
    lf: "sub64 tf pf = Inr lf" and
    iaf: "sub64 inputAmount tf = Inr iaf" and
    f: "f = \<lparr> totalFee = tf, protocolFee = pf, lpFee = lf, inputAfterFee = iaf \<rparr>"
    by (auto simp add: swap_fees_def bindE_Inr)
  from wideRatio2_Inr [OF tf] wideRatio2_Inr [OF pf] sub64_Inr [OF lf] sub64_Inr [OF iaf] f
  show "unat sfb \<noteq> 0"
    and "unat (totalFee f) = unat inputAmount * unat sfb div 10000"
    and "unat (protocolFee f) = unat (totalFee f) * unat pfb div unat sfb"
    and "unat (protocolFee f) \<le> unat (totalFee f)"
    and "unat (lpFee f) = unat (totalFee f) - unat (protocolFee f)"
    and "unat (totalFee f) \<le> unat inputAmount"
    and "unat (inputAfterFee f) = unat inputAmount - unat (totalFee f)"
    by simp_all
qed

lemma swap_amounts_Inr:
  assumes "swap_amounts rI rO sfb pfb inputAmount = Inr a"
  shows "\<exists>f. swap_fees inputAmount sfb pfb = Inr f \<and> totalFee a = totalFee f \<and>
            protocolFee a = protocolFee f \<and> lpFee a = lpFee f \<and>
            inputAfterFee a = inputAfterFee f"
    and "0 < unat inputAmount"
    and "unat rI + unat (inputAfterFee a) \<noteq> 0"
    and "unat (outputAmount a) =
           unat rO * unat (inputAfterFee a) div (unat rI + unat (inputAfterFee a))"
    and "0 < unat (outputAmount a)"
    and "unat (newReserveIn a) = unat rI + unat (inputAfterFee a) + unat (lpFee a)"
    and "unat (outputAmount a) \<le> unat rO"
    and "unat (newReserveOut a) = unat rO - unat (outputAmount a)"
proof -
  from assms obtain f numerator denominator out r newIn newOut where
    pos: "0 < unat inputAmount" and
    f: "swap_fees inputAmount sfb pfb = Inr f" and
    n: "mul64 rO (inputAfterFee f) = Inr numerator" and
    d: "add64 rI (inputAfterFee f) = Inr denominator" and
    out: "div64 numerator denominator = Inr out" and
    outpos: "0 < unat out" and
    r: "add64 rI (inputAfterFee f) = Inr r" and
    newIn: "add64 r (lpFee f) = Inr newIn" and
    newOut: "sub64 rO out = Inr newOut" and
    a: "a = \<lparr> totalFee = totalFee f, protocolFee = protocolFee f, lpFee = lpFee f,
               inputAfterFee = inputAfterFee f,
               outputAmount = out, newReserveIn = newIn, newReserveOut = newOut \<rparr>"
    by (auto simp add: swap_amounts_def bindE_Inr assert_that_Inr)
  show "\<exists>f. swap_fees inputAmount sfb pfb = Inr f \<and> totalFee a = totalFee f \<and>
            protocolFee a = protocolFee f \<and> lpFee a = lpFee f \<and>
            inputAfterFee a = inputAfterFee f"
    using f a by simp
  show "0 < unat inputAmount" by (rule pos)
  from mul64_Inr [OF n] add64_Inr [OF d] div64_Inr [OF out] add64_Inr [OF r]
    add64_Inr [OF newIn] sub64_Inr [OF newOut] outpos a
  show "unat rI + unat (inputAfterFee a) \<noteq> 0"
    and "unat (outputAmount a) =
           unat rO * unat (inputAfterFee a) div (unat rI + unat (inputAfterFee a))"
    and "0 < unat (outputAmount a)"
    and "unat (newReserveIn a) = unat rI + unat (inputAfterFee a) + unat (lpFee a)"
    and "unat (outputAmount a) \<le> unat rO"
    and "unat (newReserveOut a) = unat rO - unat (outputAmount a)"
    by simp_all
qed

lemma swap_Inr:
  assumes "swap c s inputAmount swapType = Inr (s', tx)"
  shows "\<exists>a. (swapType = 0 \<or> swapType = 1) \<and>
           swap_amounts (reserve_in s swapType) (reserve_out s swapType)
             (swap_fee_bps s) (protocol_fee_bps s) inputAmount = Inr a \<and>
           unat (newReserveIn a) * unat (newReserveOut a) < 2 ^ 64 \<and>
           reserve_in s' swapType = newReserveIn a \<and>
           reserve_out s' swapType = newReserveOut a \<and>
           k_value s' = newReserveIn a * newReserveOut a"
  using assms
  by (auto simp add: swap_def Let_def bindE_Inr reserve_in_def reserve_out_def mul64_def
      split: if_splits)

text \<open>The constant-product quote never lowers the product of the reserves.\<close>

lemma quote_keeps_product:
  fixes rI rO x :: nat
  shows "rI * rO \<le> (rI + x) * (rO - rO * x div (rI + x))"
proof -
  have "(rI + x) * (rO * x div (rI + x)) \<le> rO * x"
    by (metis mult.commute div_times_less_eq_dividend)
  then have "(rI + x) * rO - rO * x \<le> (rI + x) * rO - (rI + x) * (rO * x div (rI + x))"
    by (rule diff_le_mono2)
  moreover have "(rI + x) * rO - rO * x = rI * rO"
    by (simp add: algebra_simps)
  ultimately show ?thesis
    by (simp add: diff_mult_distrib2)
qed

subsection \<open>The fee split inside and outside its domain\<close>

lemma swap_fees_in_domain:
  assumes "unat pfb \<le> unat sfb" and "unat sfb \<le> 10000" and "unat sfb \<noteq> 0"
  shows "\<exists>f. swap_fees inputAmount sfb pfb = Inr f"
proof -
  let ?tf = "unat inputAmount * unat sfb div 10000"
  have amt: "unat inputAmount < 2 ^ 64" using unsigned_less [of inputAmount] by simp
  have tf_le: "?tf \<le> unat inputAmount" using assms(2) by (rule div_mult_le_self)
  then have tf_lt: "?tf < 2 ^ 64" using amt by simp
  then have tf: "wideRatio [inputAmount, sfb] [10000] = Inr (of_nat ?tf)"
    by (simp add: wideRatio2_eq)
  have utf: "unat (of_nat ?tf :: uint64) = ?tf" using tf_lt by (rule unat_of_nat64)
  let ?pf = "?tf * unat pfb div unat sfb"
  have pf_le: "?pf \<le> ?tf" using assms(1) by (rule div_mult_le_self)
  then have pf_lt: "?pf < 2 ^ 64" using tf_lt by simp
  then have pf: "wideRatio [of_nat ?tf, pfb] [sfb] = Inr (of_nat ?pf)"
    using assms(3) by (simp add: wideRatio2_eq utf)
  have upf: "unat (of_nat ?pf :: uint64) = ?pf" using pf_lt by (rule unat_of_nat64)
  have lf: "sub64 (of_nat ?tf) (of_nat ?pf) = Inr (of_nat ?tf - of_nat ?pf)"
    using pf_le by (simp add: sub64_def utf upf)
  have iaf: "sub64 inputAmount (of_nat ?tf) = Inr (inputAmount - of_nat ?tf)"
    using tf_le by (simp add: sub64_def utf)
  show ?thesis
    by (simp add: swap_fees_def bindE_def tf pf lf iaf)
qed

lemma swap_fees_zero_fee: "swap_fees inputAmount 0 pfb = Inl DivisionByZero"
proof -
  have "wideRatio [inputAmount, 0] [10000] = Inr 0"
    by (simp add: wideRatio2_eq)
  moreover have "wideRatio [0, pfb] [0] = Inl DivisionByZero"
    by (simp add: wideRatio2_eq)
  ultimately show ?thesis
    by (simp add: swap_fees_def bindE_def)
qed

text \<open>Inside the domain \<open>protocol_fee_bps \<le> swap_fee_bps \<le> 10000\<close> no subtraction of
  \<open>swap\<close> underflows.\<close>

lemma swap_fees_no_underflow:
  assumes "unat pfb \<le> unat sfb" and "unat sfb \<le> 10000"
  shows "swap_fees inputAmount sfb pfb \<noteq> Inl ArithmeticUnderflow"
proof (cases "sfb = 0")
  case True
  then show ?thesis by (simp add: swap_fees_zero_fee)
next
  case False
  then have "unat sfb \<noteq> 0" by (simp add: unat_eq_0)
  from swap_fees_in_domain [OF assms this, of inputAmount] show ?thesis by auto
qed

lemma quote_sub_ok:
  assumes "mul64 rO x = Inr n" and "add64 rI x = Inr d" and "div64 n d = Inr out"
  shows "sub64 rO out = Inr (rO - out)"
proof -
  from mul64_Inr [OF assms(1)] add64_Inr [OF assms(2)] div64_Inr [OF assms(3)]
  have "unat out = unat rO * unat x div (unat rI + unat x)" by simp
  moreover have "unat rO * unat x div (unat rI + unat x) \<le> unat rO"
    by (rule div_mult_le_self) simp
  ultimately show ?thesis by (simp add: sub64_def)
qed

lemma swap_amounts_no_underflow:
  assumes "swap_fees inputAmount sfb pfb \<noteq> Inl ArithmeticUnderflow"
  shows "swap_amounts rI rO sfb pfb inputAmount \<noteq> Inl ArithmeticUnderflow"
proof
  assume "swap_amounts rI rO sfb pfb inputAmount = Inl ArithmeticUnderflow"
  with assms obtain f :: fees and numerator denominator out where
    "mul64 rO (inputAfterFee f) = Inr numerator"
    "add64 rI (inputAfterFee f) = Inr denominator"
    "div64 numerator denominator = Inr out"
    "sub64 rO out = Inl ArithmeticUnderflow"
    by (auto simp add: swap_amounts_def bindE_Inl assert_that_Inl
        dest: add64_Inl mul64_Inl div64_Inl)
  with quote_sub_ok show False by fastforce
qed

lemma swap_no_underflow:
  assumes "unat (protocol_fee_bps s) \<le> unat (swap_fee_bps s)"
      and "unat (swap_fee_bps s) \<le> 10000"
  shows "swap c s inputAmount swapType \<noteq> Inl ArithmeticUnderflow"
proof
  assume bad: "swap c s inputAmount swapType = Inl ArithmeticUnderflow"
  have "swap_amounts rI rO (swap_fee_bps s) (protocol_fee_bps s) inputAmount
          \<noteq> Inl ArithmeticUnderflow" for rI rO
    using swap_fees_no_underflow [OF assms] by (rule swap_amounts_no_underflow)
  with bad show False
    by (auto simp add: swap_def Let_def bindE_Inl split: if_splits dest: mul64_Inl)
qed

text \<open>With a swap fee of 0 no swap returns, whatever the amount and the direction.\<close>

lemma swap_zero_fee_never_returns:
  assumes "swap_fee_bps s = 0"
  shows "swap c s inputAmount swapType \<noteq> Inr r"
proof
  assume "swap c s inputAmount swapType = Inr r"
  then have "swap c s inputAmount swapType = Inr (fst r, snd r)" by simp
  from swap_Inr [OF this] obtain a where
    "swap_amounts (reserve_in s swapType) (reserve_out s swapType)
       (swap_fee_bps s) (protocol_fee_bps s) inputAmount = Inr a"
    by blast
  from swap_amounts_Inr(1) [OF this] obtain f where
    "swap_fees inputAmount (swap_fee_bps s) (protocol_fee_bps s) = Inr f"
    by blast
  from swap_fees_Inr(1) [OF this] assms show False by simp
qed

subsection \<open>The withdrawal ratio\<close>

lemma withdrawn_within:
  assumes "0 < unat lpTokensBurned" and "unat lpTokensBurned \<le> unat totalLPSupply"
  shows "\<exists>w. withdrawn lpTokensBurned reserve totalLPSupply = Inr w \<and>
             unat w = unat lpTokensBurned * unat reserve div unat totalLPSupply \<and>
             unat w \<le> unat reserve"
proof -
  let ?q = "unat lpTokensBurned * unat reserve div unat totalLPSupply"
  have "unat reserve * unat lpTokensBurned div unat totalLPSupply \<le> unat reserve"
    using assms(2) by (rule div_mult_le_self)
  then have le: "?q \<le> unat reserve" by (simp add: mult.commute)
  moreover have "unat reserve < 2 ^ 64" using unsigned_less [of reserve] by simp
  ultimately have lt: "?q < 2 ^ 64" by simp
  have nz: "unat totalLPSupply \<noteq> 0" using assms by simp
  have "withdrawn lpTokensBurned reserve totalLPSupply = Inr (of_nat ?q)"
    using lt nz by (simp add: withdrawn_def wideRatio2_eq)
  moreover have "unat (of_nat ?q :: uint64) = ?q" using lt by (rule unat_of_nat64)
  ultimately show ?thesis using le by simp
qed

subsection \<open>Evaluating the concrete pool\<close>

lemmas eval_defs =
  exec_def createApplication_def initApplication_def addLiquidity_def removeLiquidity_def
  swap_def swap_amounts_def swap_fees_def lpTokensMinted_def withdrawn_def
  updateSwapFee_def updateProtocolFee_def updateAdmin_def updateTreasury_def
  updateMinimumBalance_def updateContractEnding_def
  bindE_def assert_that_def verifyPayTxn_def verifyAssetTransferTxn_def send_asset_def
  add64_def sub64_def mul64_def div64_def wideRatio_def min_u64_def
  VERSION_def TOKEN_MBR_def LP_TOKEN_SUPPLY_def Let_def
  admin_ctx_def user_ctx_def init_call_def user_transfer_def first_deposit_def
  second_ctx_def empty_state_def active_pool_def funded_pool_def

lemma sqrt_first_deposit: "sqrt_u64 10000000000 = 100000"
  by (simp add: sqrt_u64_def sqrt_nat.simps)

lemma create_then_init:
  "run (createApplication admin_ctx empty_state) [(admin_ctx, init_call)] =
     (active_pool, [None])"
  by (simp add: eval_defs)

lemma first_deposit_exec: "exec user_ctx active_pool first_deposit = (funded_pool, None)"
  by (simp add: eval_defs sqrt_first_deposit)

section \<open>The swap\<close>

text \<open>
  C1. Whenever \<open>swap\<close> returns, its direction is 0 or 1 and the values it computed are
  \<open>totalFee = floor(inputAmount * swapFeeBps / 10000)\<close>,
  \<open>protocolFee = floor(totalFee * protocolFeeBps / swapFeeBps)\<close>,
  \<open>inputAfterFee = inputAmount - totalFee\<close> and
  \<open>outputAmount = floor(reserveOut * inputAfterFee / (reserveIn + inputAfterFee))\<close>,
  with \<open>lpFee = totalFee - protocolFee\<close>; no subtraction is cut off; and the state it
  returns holds \<open>reserveIn + inputAfterFee + lpFee\<close> on the input side and
  \<open>reserveOut - outputAmount\<close> on the output side. With a swap fee of 30 bps, a protocol
  fee of 5 bps and reserves (100000, 100000), swapping 1000 of the primary asset gives
  \<open>totalFee = 3\<close>, \<open>protocolFee = 0\<close>, \<open>lpFee = 3\<close>, \<open>inputAfterFee = 997\<close>,
  \<open>outputAmount = 987\<close> and the reserves (101000, 99013).
\<close>

theorem swap_formulas:
  "(\<forall>c s inputAmount swapType s' tx.
      swap c s inputAmount swapType = Inr (s', tx) \<longrightarrow>
      (swapType = 0 \<or> swapType = 1) \<and>
      (\<exists>a. swap_amounts (reserve_in s swapType) (reserve_out s swapType)
              (swap_fee_bps s) (protocol_fee_bps s) inputAmount = Inr a \<and>
            unat (totalFee a) = unat inputAmount * unat (swap_fee_bps s) div 10000 \<and>
            unat (protocolFee a) =
              unat (totalFee a) * unat (protocol_fee_bps s) div unat (swap_fee_bps s) \<and>
            unat (totalFee a) \<le> unat inputAmount \<and>
            unat (inputAfterFee a) = unat inputAmount - unat (totalFee a) \<and>
            unat (outputAmount a) =
              unat (reserve_out s swapType) * unat (inputAfterFee a)
                div (unat (reserve_in s swapType) + unat (inputAfterFee a)) \<and>
            unat (protocolFee a) \<le> unat (totalFee a) \<and>
            unat (lpFee a) = unat (totalFee a) - unat (protocolFee a) \<and>
            unat (outputAmount a) \<le> unat (reserve_out s swapType) \<and>
            unat (reserve_in s' swapType) =
              unat (reserve_in s swapType) + unat (inputAfterFee a) + unat (lpFee a) \<and>
            unat (reserve_out s' swapType) =
              unat (reserve_out s swapType) - unat (outputAmount a))) \<and>
   swap_amounts 100000 100000 30 5 1000 =
     Inr \<lparr> totalFee = 3, protocolFee = 0, lpFee = 3, inputAfterFee = 997,
           outputAmount = 987, newReserveIn = 101000, newReserveOut = 99013 \<rparr> \<and>
   swap user_ctx funded_pool 1000 0 =
     Inr (funded_pool \<lparr> primary_token_reserve := 101000, secondary_token_reserve := 99013,
            k_value := 10000313000 \<rparr>,
          [AssetTransfer 1002 2 987])"
proof (intro conjI allI impI)
  fix c s inputAmount swapType s' tx
  assume ok: "swap c s inputAmount swapType = Inr (s', tx)"
  from swap_Inr [OF ok] obtain a where
    ty: "swapType = 0 \<or> swapType = 1" and
    a: "swap_amounts (reserve_in s swapType) (reserve_out s swapType)
          (swap_fee_bps s) (protocol_fee_bps s) inputAmount = Inr a" and
    rin: "reserve_in s' swapType = newReserveIn a" and
    rout: "reserve_out s' swapType = newReserveOut a"
    by blast
  from swap_amounts_Inr(1) [OF a] obtain f where
    f: "swap_fees inputAmount (swap_fee_bps s) (protocol_fee_bps s) = Inr f" and
    same: "totalFee a = totalFee f" "protocolFee a = protocolFee f" "lpFee a = lpFee f"
      "inputAfterFee a = inputAfterFee f"
    by blast
  note fee = swap_fees_Inr [OF f, folded same]
  note amt = swap_amounts_Inr [OF a]
  show "swapType = 0 \<or> swapType = 1"
    by (rule ty)
  show "\<exists>a. swap_amounts (reserve_in s swapType) (reserve_out s swapType)
              (swap_fee_bps s) (protocol_fee_bps s) inputAmount = Inr a \<and>
            unat (totalFee a) = unat inputAmount * unat (swap_fee_bps s) div 10000 \<and>
            unat (protocolFee a) =
              unat (totalFee a) * unat (protocol_fee_bps s) div unat (swap_fee_bps s) \<and>
            unat (totalFee a) \<le> unat inputAmount \<and>
            unat (inputAfterFee a) = unat inputAmount - unat (totalFee a) \<and>
            unat (outputAmount a) =
              unat (reserve_out s swapType) * unat (inputAfterFee a)
                div (unat (reserve_in s swapType) + unat (inputAfterFee a)) \<and>
            unat (protocolFee a) \<le> unat (totalFee a) \<and>
            unat (lpFee a) = unat (totalFee a) - unat (protocolFee a) \<and>
            unat (outputAmount a) \<le> unat (reserve_out s swapType) \<and>
            unat (reserve_in s' swapType) =
              unat (reserve_in s swapType) + unat (inputAfterFee a) + unat (lpFee a) \<and>
            unat (reserve_out s' swapType) =
              unat (reserve_out s swapType) - unat (outputAmount a)"
    using a fee(2-7) amt(4,6,7,8) rin rout
    by (intro exI [of _ a]) simp
next
  show "swap_amounts 100000 100000 30 5 1000 =
     Inr \<lparr> totalFee = 3, protocolFee = 0, lpFee = 3, inputAfterFee = 997,
           outputAmount = 987, newReserveIn = 101000, newReserveOut = 99013 \<rparr>"
    by (simp add: eval_defs)
next
  show "swap user_ctx funded_pool 1000 0 =
     Inr (funded_pool \<lparr> primary_token_reserve := 101000, secondary_token_reserve := 99013,
            k_value := 10000313000 \<rparr>,
          [AssetTransfer 1002 2 987])"
    by (simp add: eval_defs)
qed

text \<open>The general part of C1 at the swap of 1000 in the funded pool.\<close>

theorem swap_formulas_witness:
  "swap user_ctx funded_pool 1000 0 =
     Inr (funded_pool \<lparr> primary_token_reserve := 101000, secondary_token_reserve := 99013,
            k_value := 10000313000 \<rparr>,
          [AssetTransfer 1002 2 987]) \<and>
   (\<exists>a. swap_amounts 100000 100000 30 5 1000 = Inr a \<and>
         unat (totalFee a) = 3 \<and> unat (inputAfterFee a) = 997 \<and>
         unat (outputAmount a) = 987 \<and> unat (lpFee a) = 3)"
proof -
  have ok: "swap user_ctx funded_pool 1000 0 =
     Inr (funded_pool \<lparr> primary_token_reserve := 101000, secondary_token_reserve := 99013,
            k_value := 10000313000 \<rparr>,
          [AssetTransfer 1002 2 987])"
    by (simp add: eval_defs)
  from swap_formulas [THEN conjunct1, rule_format, OF ok] ok
  show ?thesis
    by (auto simp add: reserve_in_def reserve_out_def funded_pool_def active_pool_def)
qed

text \<open>
  C5. Invariant growth: whenever \<open>swap\<close> returns, the product of the reserves it
  commits is at least the product of the reserves before the call, and it is the value
  stored in \<open>k_value\<close>. (A swap that returns had a swap fee above 0 and a positive
  output reserve: with a fee of 0 the fee split divides by zero, with an empty output
  reserve the output is 0 and the swap is too small. Neither needs to be assumed.)
\<close>

theorem swap_invariant_growth:
  assumes "swap c s inputAmount swapType = Inr (s', tx)"
  shows "unat (reserve_in s swapType) * unat (reserve_out s swapType)
           \<le> unat (reserve_in s' swapType) * unat (reserve_out s' swapType) \<and>
         unat (k_value s') = unat (reserve_in s' swapType) * unat (reserve_out s' swapType)"
proof -
  from swap_Inr [OF assms] obtain a where
    a: "swap_amounts (reserve_in s swapType) (reserve_out s swapType)
          (swap_fee_bps s) (protocol_fee_bps s) inputAmount = Inr a" and
    fits: "unat (newReserveIn a) * unat (newReserveOut a) < 2 ^ 64" and
    rin: "reserve_in s' swapType = newReserveIn a" and
    rout: "reserve_out s' swapType = newReserveOut a" and
    k: "k_value s' = newReserveIn a * newReserveOut a"
    by blast
  let ?rI = "unat (reserve_in s swapType)" and ?rO = "unat (reserve_out s swapType)"
  let ?x = "unat (inputAfterFee a)"
  have out: "unat (outputAmount a) = ?rO * ?x div (?rI + ?x)"
    by (rule swap_amounts_Inr(4) [OF a])
  have newIn: "unat (newReserveIn a) = ?rI + ?x + unat (lpFee a)"
    by (rule swap_amounts_Inr(6) [OF a])
  have newOut: "unat (newReserveOut a) = ?rO - unat (outputAmount a)"
    by (rule swap_amounts_Inr(8) [OF a])
  have "?rI * ?rO \<le> (?rI + ?x) * (?rO - ?rO * ?x div (?rI + ?x))"
    by (rule quote_keeps_product)
  also have "\<dots> \<le> (?rI + ?x + unat (lpFee a)) * (?rO - ?rO * ?x div (?rI + ?x))"
    by (rule mult_le_mono1) simp
  finally have grow: "?rI * ?rO \<le> unat (reserve_in s' swapType) * unat (reserve_out s' swapType)"
    by (simp add: rin rout newIn newOut out)
  have "unat (k_value s') = unat (newReserveIn a) * unat (newReserveOut a)"
    using fits by (simp add: k unat_mult_lem [THEN iffD1])
  with grow show ?thesis
    by (simp add: rin rout)
qed

text \<open>C5 at the swap of 1000 in the funded pool: 100000 * 100000 against
  101000 * 99013.\<close>

theorem swap_invariant_growth_witness:
  "swap user_ctx funded_pool 1000 0 =
     Inr (funded_pool \<lparr> primary_token_reserve := 101000, secondary_token_reserve := 99013,
            k_value := 10000313000 \<rparr>,
          [AssetTransfer 1002 2 987]) \<and>
   (100000 :: nat) * 100000 \<le> 101000 * 99013"
proof -
  have ok: "swap user_ctx funded_pool 1000 0 =
     Inr (funded_pool \<lparr> primary_token_reserve := 101000, secondary_token_reserve := 99013,
            k_value := 10000313000 \<rparr>,
          [AssetTransfer 1002 2 987])"
    by (simp add: eval_defs)
  from swap_invariant_growth [OF ok] ok
  show ?thesis
    by (simp add: reserve_in_def reserve_out_def funded_pool_def active_pool_def)
qed

text \<open>
  C10. In a state with \<open>protocol_fee_bps \<le> swap_fee_bps \<le> 10000\<close> the fee split of
  \<open>swap\<close> is conserving and never underflows: whenever it yields values, then
  \<open>protocolFee \<le> totalFee\<close>, \<open>lpFee + protocolFee = totalFee\<close>,
  \<open>totalFee \<le> inputAmount\<close> and \<open>inputAfterFee + totalFee = inputAmount\<close> as
  natural numbers; it yields values unless \<open>swap_fee_bps\<close> is 0, where the only
  failure is the division by \<open>swapFeeBps\<close>; and no call of \<open>swap\<close> in such a state
  fails by an underflow.
\<close>

theorem fee_split_exact:
  assumes "unat (protocol_fee_bps s) \<le> unat (swap_fee_bps s)"
      and "unat (swap_fee_bps s) \<le> 10000"
  shows "swap c s inputAmount swapType \<noteq> Inl ArithmeticUnderflow \<and>
         (case swap_fees inputAmount (swap_fee_bps s) (protocol_fee_bps s) of
            Inl e \<Rightarrow> e = DivisionByZero \<and> swap_fee_bps s = 0
          | Inr f \<Rightarrow>
              unat (protocolFee f) \<le> unat (totalFee f) \<and>
              unat (lpFee f) + unat (protocolFee f) = unat (totalFee f) \<and>
              unat (totalFee f) \<le> unat inputAmount \<and>
              unat (inputAfterFee f) + unat (totalFee f) = unat inputAmount)"
proof (rule conjI)
  show "swap c s inputAmount swapType \<noteq> Inl ArithmeticUnderflow"
    using assms by (rule swap_no_underflow)
next
  show "case swap_fees inputAmount (swap_fee_bps s) (protocol_fee_bps s) of
          Inl e \<Rightarrow> e = DivisionByZero \<and> swap_fee_bps s = 0
        | Inr f \<Rightarrow>
            unat (protocolFee f) \<le> unat (totalFee f) \<and>
            unat (lpFee f) + unat (protocolFee f) = unat (totalFee f) \<and>
            unat (totalFee f) \<le> unat inputAmount \<and>
            unat (inputAfterFee f) + unat (totalFee f) = unat inputAmount"
  proof (cases "swap_fee_bps s = 0")
    case True
    then show ?thesis by (simp add: swap_fees_zero_fee)
  next
    case False
    then have "unat (swap_fee_bps s) \<noteq> 0" by (simp add: unat_eq_0)
    with assms obtain f where
      f: "swap_fees inputAmount (swap_fee_bps s) (protocol_fee_bps s) = Inr f"
      using swap_fees_in_domain by blast
    from swap_fees_Inr(4-7) [OF f] show ?thesis
      by (simp add: f)
  qed
qed

text \<open>C10 at the funded pool (30 bps and 5 bps) and an input of 1000.\<close>

theorem fee_split_exact_witness:
  "unat (protocol_fee_bps funded_pool) \<le> unat (swap_fee_bps funded_pool) \<and>
   unat (swap_fee_bps funded_pool) \<le> 10000 \<and>
   swap user_ctx funded_pool 1000 0 \<noteq> Inl ArithmeticUnderflow \<and>
   swap_fees 1000 (swap_fee_bps funded_pool) (protocol_fee_bps funded_pool) =
     Inr \<lparr> totalFee = 3, protocolFee = 0, lpFee = 3, inputAfterFee = 997 \<rparr> \<and>
   unat (0 :: uint64) \<le> unat (3 :: uint64) \<and>
   unat (3 :: uint64) + unat (0 :: uint64) = unat (3 :: uint64) \<and>
   unat (3 :: uint64) \<le> unat (1000 :: uint64) \<and>
   unat (997 :: uint64) + unat (3 :: uint64) = unat (1000 :: uint64)"
proof -
  have h1: "unat (protocol_fee_bps funded_pool) \<le> unat (swap_fee_bps funded_pool)"
    by (simp add: funded_pool_def active_pool_def)
  have h2: "unat (swap_fee_bps funded_pool) \<le> 10000"
    by (simp add: funded_pool_def active_pool_def)
  have v: "swap_fees 1000 (swap_fee_bps funded_pool) (protocol_fee_bps funded_pool) =
     Inr \<lparr> totalFee = 3, protocolFee = 0, lpFee = 3, inputAfterFee = 997 \<rparr>"
    by (simp add: eval_defs)
  from fee_split_exact [where s = funded_pool and c = user_ctx and inputAmount = 1000
      and swapType = 0, OF h1 h2] h1 h2 v
  show ?thesis by simp
qed

text \<open>
  C6. The claim: with \<open>swap_fee_bps = 0\<close> the protocol fee is guarded to 0 and \<open>swap\<close> does
  not divide by zero. The code at such a state: after the admin sets both fees to 0 in the
  funded pool, a swap of 1000 of the primary asset stops with the division by zero of
  \<open>wideRatio([totalFee, protocolFeeBps], [swapFeeBps])\<close> and the pool is unchanged.
\<close>

theorem swap_with_zero_fee_divides_by_zero:
  "run funded_pool [(admin_ctx, UpdateProtocolFee 0), (admin_ctx, UpdateSwapFee 0),
                    (user_ctx, Swap 1000 0)] =
     (funded_pool \<lparr> protocol_fee_bps := 0, swap_fee_bps := 0 \<rparr>,
      [None, None, Some DivisionByZero])"
  by (simp add: eval_defs)

section \<open>Liquidity\<close>

text \<open>
  C9. For \<open>0 < lpTokensBurned \<le> total_lp_supply\<close> both withdrawals of
  \<open>removeLiquidity\<close> are computed without error and are at most the reserve they are
  taken from, so \<open>primaryReserve - primaryWithdrawn\<close> and
  \<open>secondaryReserve - secondaryWithdrawn\<close> do not underflow: the checked subtraction
  returns the exact difference.
\<close>

theorem withdrawals_within_reserves:
  assumes "0 < unat lpTokensBurned"
      and "unat lpTokensBurned \<le> unat (total_lp_supply s)"
  shows "\<exists>primaryWithdrawn secondaryWithdrawn.
           withdrawn lpTokensBurned (primary_token_reserve s) (total_lp_supply s)
             = Inr primaryWithdrawn \<and>
           withdrawn lpTokensBurned (secondary_token_reserve s) (total_lp_supply s)
             = Inr secondaryWithdrawn \<and>
           unat primaryWithdrawn \<le> unat (primary_token_reserve s) \<and>
           unat secondaryWithdrawn \<le> unat (secondary_token_reserve s) \<and>
           sub64 (primary_token_reserve s) primaryWithdrawn
             = Inr (primary_token_reserve s - primaryWithdrawn) \<and>
           sub64 (secondary_token_reserve s) secondaryWithdrawn
             = Inr (secondary_token_reserve s - secondaryWithdrawn) \<and>
           unat (primary_token_reserve s - primaryWithdrawn)
             = unat (primary_token_reserve s) - unat primaryWithdrawn \<and>
           unat (secondary_token_reserve s - secondaryWithdrawn)
             = unat (secondary_token_reserve s) - unat secondaryWithdrawn"
proof -
  from withdrawn_within [OF assms, of "primary_token_reserve s"] obtain pw where
    pw: "withdrawn lpTokensBurned (primary_token_reserve s) (total_lp_supply s) = Inr pw"
    and pw_le: "unat pw \<le> unat (primary_token_reserve s)"
    by blast
  from withdrawn_within [OF assms, of "secondary_token_reserve s"] obtain sw where
    sw: "withdrawn lpTokensBurned (secondary_token_reserve s) (total_lp_supply s) = Inr sw"
    and sw_le: "unat sw \<le> unat (secondary_token_reserve s)"
    by blast
  have p: "sub64 (primary_token_reserve s) pw = Inr (primary_token_reserve s - pw)"
    using pw_le by (simp add: sub64_def)
  have q: "sub64 (secondary_token_reserve s) sw = Inr (secondary_token_reserve s - sw)"
    using sw_le by (simp add: sub64_def)
  from pw sw pw_le sw_le p q sub64_Inr [OF p] sub64_Inr [OF q]
  show ?thesis by blast
qed

text \<open>C9 at the funded pool and a burn of 100000 units.\<close>

theorem withdrawals_within_reserves_witness:
  "0 < unat (100000 :: uint64) \<and>
   unat (100000 :: uint64) \<le> unat (total_lp_supply funded_pool) \<and>
   (\<exists>primaryWithdrawn secondaryWithdrawn.
      withdrawn 100000 (primary_token_reserve funded_pool) (total_lp_supply funded_pool)
        = Inr primaryWithdrawn \<and>
      withdrawn 100000 (secondary_token_reserve funded_pool) (total_lp_supply funded_pool)
        = Inr secondaryWithdrawn \<and>
      unat primaryWithdrawn \<le> unat (primary_token_reserve funded_pool) \<and>
      unat secondaryWithdrawn \<le> unat (secondary_token_reserve funded_pool))"
proof -
  have h1: "0 < unat (100000 :: uint64)" by simp
  have h2: "unat (100000 :: uint64) \<le> unat (total_lp_supply funded_pool)"
    by (simp add: funded_pool_def active_pool_def)
  from withdrawals_within_reserves [OF h1 h2] h1 h2
  show ?thesis by blast
qed

text \<open>
  C2. The claim: \<open>removeLiquidity\<close> pays \<open>floor(lpUnitsBurned * reserve / issuedUnits)\<close>
  of each reserve, so that burning all issued units empties both reserves and restores
  the remaining supply to the full allotment. The code at the pool of the tests, after
  the first deposit of (100000, 100000) has issued 100000 units: burning these 100000
  units succeeds, pays 0 of each asset, leaves the reserves at (100000, 100000) and
  leaves \<open>total_lp_supply\<close> at 99999999899999, because the ratios divide by
  \<open>total_lp_supply\<close> and the two writes of that key cancel.
\<close>

theorem burning_all_issued_units_pays_nothing:
  "run (createApplication admin_ctx empty_state)
       [(admin_ctx, init_call), (user_ctx, first_deposit),
        (user_ctx, RemoveLiquidity (user_transfer 1003 100000) 100000)] =
     (funded_pool \<lparr> lp_tokens_issued := 0 \<rparr>, [None, None, None]) \<and>
   removeLiquidity user_ctx funded_pool (user_transfer 1003 100000) 100000 =
     Inr (funded_pool \<lparr> lp_tokens_issued := 0 \<rparr>,
          [AssetTransfer 1001 2 0, AssetTransfer 1002 2 0]) \<and>
   primary_token_reserve (funded_pool \<lparr> lp_tokens_issued := 0 \<rparr>) = 100000 \<and>
   secondary_token_reserve (funded_pool \<lparr> lp_tokens_issued := 0 \<rparr>) = 100000 \<and>
   total_lp_supply (funded_pool \<lparr> lp_tokens_issued := 0 \<rparr>) = 99999999899999"
  by (simp add: eval_defs sqrt_first_deposit)

text \<open>
  C3. The claim: after every successful \<open>addLiquidity\<close> or \<open>removeLiquidity\<close> the issued
  units equal the fixed allotment minus the remaining supply, each removal adding the
  burned units back to the remaining supply. The code: after the first deposit
  \<open>lp_tokens_issued + total_lp_supply = LP_TOKEN_SUPPLY\<close>; a successful removal of 1 unit
  lowers \<open>lp_tokens_issued\<close> by 1 and leaves \<open>total_lp_supply\<close> as it was, so the sum is
  \<open>LP_TOKEN_SUPPLY - 1\<close>.
\<close>

theorem remove_leaves_supply_unchanged:
  "run (createApplication admin_ctx empty_state)
       [(admin_ctx, init_call), (user_ctx, first_deposit),
        (user_ctx, RemoveLiquidity (user_transfer 1003 1) 1)] =
     (funded_pool \<lparr> lp_tokens_issued := 99999 \<rparr>, [None, None, None]) \<and>
   total_lp_supply (funded_pool \<lparr> lp_tokens_issued := 99999 \<rparr>) = total_lp_supply funded_pool \<and>
   unat (lp_tokens_issued funded_pool) + unat (total_lp_supply funded_pool)
     = unat LP_TOKEN_SUPPLY \<and>
   unat (lp_tokens_issued (funded_pool \<lparr> lp_tokens_issued := 99999 \<rparr>)) +
   unat (total_lp_supply (funded_pool \<lparr> lp_tokens_issued := 99999 \<rparr>))
     = unat LP_TOKEN_SUPPLY - 1"
  by (simp add: eval_defs sqrt_first_deposit)

text \<open>
  C4. The claim: when units are already issued, \<open>addLiquidity\<close> mints
  \<open>min(floor(primaryAmount * lpUnitsIssued / primaryReserve),
  floor(secondaryAmount * lpUnitsIssued / secondaryReserve))\<close>, which for a deposit of
  (1000, 1000) into the funded pool is 1000. The code mints 999999998999 there: both
  ratios are taken against \<open>total_lp_supply\<close>, the remaining supply of 99999999899999.
\<close>

theorem second_deposit_mints_against_remaining_supply:
  "lpTokensMinted 1000 1000 (primary_token_reserve funded_pool)
     (secondary_token_reserve funded_pool) (total_lp_supply funded_pool)
     (lp_tokens_issued funded_pool) = Inr 999999998999 \<and>
   addLiquidity user_ctx funded_pool 1000 1000 (user_transfer 1001 1000) (user_transfer 1002 1000) =
     Inr (funded_pool \<lparr> primary_token_reserve := 101000, secondary_token_reserve := 101000,
            total_lp_supply := 98999999901000, k_value := 10201000000,
            lp_tokens_issued := 1000000098999 \<rparr>,
          [AssetTransfer 1003 2 999999998999]) \<and>
   min (1000 * unat (lp_tokens_issued funded_pool) div unat (primary_token_reserve funded_pool))
       (1000 * unat (lp_tokens_issued funded_pool) div unat (secondary_token_reserve funded_pool))
     = 1000"
  by (simp add: eval_defs)

section \<open>Administration\<close>

text \<open>
  C8. Each of \<open>updateSwapFee\<close>, \<open>updateProtocolFee\<close>, \<open>updateAdmin\<close>,
  \<open>updateTreasury\<close>, \<open>updateMinimumBalance\<close> and \<open>updateContractEnding\<close> (the lifecycle
  flag): called by anyone but the admin it fails with \<open>Unauthorized\<close> and the state is
  the one before the call; called by the admin it succeeds and the state differs from the
  one before the call in the named field only, which holds the given value.
\<close>

theorem admin_updates_frame:
  "(sender c \<noteq> admin s \<longrightarrow>
      exec c s (UpdateSwapFee newFee) = (s, Some Unauthorized) \<and>
      exec c s (UpdateProtocolFee newFee) = (s, Some Unauthorized) \<and>
      exec c s (UpdateAdmin newAddr) = (s, Some Unauthorized) \<and>
      exec c s (UpdateTreasury newAddr) = (s, Some Unauthorized) \<and>
      exec c s (UpdateMinimumBalance newVal) = (s, Some Unauthorized) \<and>
      exec c s (UpdateContractEnding newVal) = (s, Some Unauthorized)) \<and>
   (sender c = admin s \<longrightarrow>
      exec c s (UpdateSwapFee newFee) = (s\<lparr> swap_fee_bps := newFee \<rparr>, None) \<and>
      exec c s (UpdateProtocolFee newFee) = (s\<lparr> protocol_fee_bps := newFee \<rparr>, None) \<and>
      exec c s (UpdateAdmin newAddr) = (s\<lparr> admin := newAddr \<rparr>, None) \<and>
      exec c s (UpdateTreasury newAddr) = (s\<lparr> treasury_address := newAddr \<rparr>, None) \<and>
      exec c s (UpdateMinimumBalance newVal) = (s\<lparr> minimum_balance := newVal \<rparr>, None) \<and>
      exec c s (UpdateContractEnding newVal) = (s\<lparr> contract_ending := newVal \<rparr>, None))"
  by (simp add: exec_def updateSwapFee_def updateProtocolFee_def updateAdmin_def
      updateTreasury_def updateMinimumBalance_def updateContractEnding_def
      bindE_def assert_that_def)

text \<open>C8 at the funded pool, for the user (address 2) and for the admin (address 1).\<close>

theorem admin_updates_frame_witness:
  "sender user_ctx \<noteq> admin funded_pool \<and>
   exec user_ctx funded_pool (UpdateSwapFee 10) = (funded_pool, Some Unauthorized) \<and>
   exec user_ctx funded_pool (UpdateAdmin 2) = (funded_pool, Some Unauthorized) \<and>
   sender admin_ctx = admin funded_pool \<and>
   exec admin_ctx funded_pool (UpdateSwapFee 10) = (funded_pool\<lparr> swap_fee_bps := 10 \<rparr>, None) \<and>
   exec admin_ctx funded_pool (UpdateAdmin 2) = (funded_pool\<lparr> admin := 2 \<rparr>, None)"
proof -
  have h1: "sender user_ctx \<noteq> admin funded_pool"
    by (simp add: user_ctx_def funded_pool_def active_pool_def)
  have h2: "sender admin_ctx = admin funded_pool"
    by (simp add: admin_ctx_def funded_pool_def active_pool_def)
  from admin_updates_frame [of user_ctx funded_pool 10 2 0, THEN conjunct1, rule_format, OF h1]
    admin_updates_frame [of admin_ctx funded_pool 10 2 0, THEN conjunct2, rule_format, OF h2]
    h1 h2
  show ?thesis by simp
qed

text \<open>
  C7, as stated, fails: \<open>initApplication\<close> can succeed more than once, and after a
  successful \<open>addLiquidity\<close>. In the run below, on the application the admin created, the
  admin initialises the pool, the user deposits, and the admin initialises again: all
  three calls succeed, two of them \<open>initApplication\<close>.
\<close>

theorem init_twice_counterexample:
  "run (createApplication admin_ctx empty_state)
       [(admin_ctx, init_call), (user_ctx, first_deposit), (second_ctx, init_call)] =
     (active_pool \<lparr> lp_token_id := 1004, lp_tokens_issued := 100000 \<rparr>,
      [None, None, None]) \<and>
   successful_inits (createApplication admin_ctx empty_state)
       [(admin_ctx, init_call), (user_ctx, first_deposit), (second_ctx, init_call)] = 2"
  by (simp add: successful_inits_def eval_defs sqrt_first_deposit)

text \<open>
  C7, amended. \<open>initApplication\<close> succeeds exactly when the caller is the admin, the
  funding payment of 403000 to the application verifies and the ledger accepts the two
  opt-ins and the creation of the LP asset, whatever else the state holds; called by
  anyone but the admin it fails with \<open>Unauthorized\<close> and the state is the one before the
  call.
\<close>

theorem init_gated_by_admin_only:
  "(snd (exec c s (InitApplication mbrTxn primaryAssetId secondaryAssetId lpAssetName
                     lpAssetURL swapFeeBps protocolFeeBps treasuryAddress)) = None
      \<longleftrightarrow> admin s = sender c \<and>
          pay_receiver mbrTxn = app_address c \<and> pay_amount mbrTxn = 403000 \<and>
          itxn_ok c (AssetTransfer primaryAssetId (app_address c) 0) \<and>
          itxn_ok c (AssetTransfer secondaryAssetId (app_address c) 0) \<and>
          itxn_ok c (AssetCreation LP_TOKEN_SUPPLY 6 lpAssetName ''MLP'' lpAssetURL)) \<and>
   (admin s \<noteq> sender c \<longrightarrow>
      exec c s (InitApplication mbrTxn primaryAssetId secondaryAssetId lpAssetName
                  lpAssetURL swapFeeBps protocolFeeBps treasuryAddress)
        = (s, Some Unauthorized))"
  by (auto simp add: exec_def initApplication_def bindE_def assert_that_def verifyPayTxn_def
      Let_def TOKEN_MBR_def)

text \<open>Amended C7 at the funded pool: refused for the user, successful for the admin.\<close>

theorem init_gated_by_admin_only_witness:
  "admin funded_pool \<noteq> sender user_ctx \<and>
   exec user_ctx funded_pool init_call = (funded_pool, Some Unauthorized) \<and>
   admin funded_pool = sender second_ctx \<and>
   snd (exec second_ctx funded_pool init_call) = None"
proof -
  have h: "admin funded_pool \<noteq> sender user_ctx"
    by (simp add: user_ctx_def funded_pool_def active_pool_def)
  from init_gated_by_admin_only [of user_ctx funded_pool, THEN conjunct2, rule_format, OF h]
    init_gated_by_admin_only [of second_ctx funded_pool "\<lparr> pay_receiver = 100, pay_amount = 403000 \<rparr>"
       1001 1002 "''LP-Asset''" "''https://lp-asset-url.com''" 30 5 3, THEN conjunct1]
    h
  show ?thesis
    by (simp add: init_call_def second_ctx_def funded_pool_def active_pool_def)
qed

end
